theory Spec2Isabelle
  imports Main "HOL-Library.AList"
begin

section \<open>Data model of \<open>cm_syncer.py\<close>\<close>

text \<open>
  A ConfigMap's \<open>data\<close> is a Python dict of string keys and string values; it is kept as
  an association list (insertion order, as a Python dict has). The attribute is optional:
  \<open>None\<close> is an absent snapshot, \<open>Some []\<close> an empty one.
\<close>

type_synonym str_dict = "(string \<times> string) list"

text \<open>The request body built by the sync pass, \<open>{"data": source_data}\<close>.\<close>

type_synonym body = "(string \<times> str_dict) list"

text \<open>
  The exceptions of a run: \<open>ApiException\<close> of the client library with its HTTP status,
  \<open>MaxRetryError\<close> (the connection error of \<open>urllib3\<close> that a stream or a request
  raises when the server cannot be reached), \<open>AttributeError\<close> (a name that a module does
  not have) and any other exception. All are subclasses of Python's \<open>Exception\<close>; each
  carries the text that \<open>str(e)\<close> yields. What ends the process from outside without
  being an \<open>Exception\<close> (\<open>KeyboardInterrupt\<close>, \<open>SystemExit\<close>) is not part of the model.
\<close>

datatype exn =
  ApiException int string | MaxRetryError string | AttributeError string | OtherException string

fun str_exn :: "exn \<Rightarrow> string" where
  "str_exn (ApiException status txt) = txt"
| "str_exn (MaxRetryError txt) = txt"
| "str_exn (AttributeError txt) = txt"
| "str_exn (OtherException txt) = txt"

datatype level = DEBUG | INFO | WARNING | ERROR | CRITICAL

text \<open>An entry of \<open>TARGET_CONFIGMAPS\<close>: a dict with the keys \<open>name\<close> and \<open>namespace\<close>.\<close>

record target =
  name :: string
  namespace :: string

definition SOURCE_CONFIGMAP_NAME :: string where
  "SOURCE_CONFIGMAP_NAME = ''source-configmap''"

definition SOURCE_CONFIGMAP_NAMESPACE :: string where
  "SOURCE_CONFIGMAP_NAMESPACE = ''default''"

definition TARGET_CONFIGMAPS :: "target list" where
  "TARGET_CONFIGMAPS =
     [\<lparr>name = ''config-1'', namespace = ''dev''\<rparr>,
      \<lparr>name = ''config-2'', namespace = ''stage''\<rparr>]"

text \<open>The object carried by a watch event (\<open>V1ConfigMap\<close>) and the event itself.\<close>

record metadata =
  md_name :: string
  md_resource_version :: "string option"

record config_map =
  cm_metadata :: metadata
  cm_data :: "str_dict option"

record event =
  ev_type :: string
  ev_object :: config_map

text \<open>
  One connection of the watch stream, as the loop sees it: the events the generator
  yields, in order, and how the generator ends (\<open>None\<close>: it is exhausted, for instance
  after \<open>timeout_seconds\<close>; \<open>Some e\<close>: it raises \<open>e\<close>).
\<close>

record session =
  events :: "event list"
  ending :: "exn option"

text \<open>The keyword arguments of one call of \<open>w.stream\<close>.\<close>

record watch_request =
  req_namespace :: string
  req_field_selector :: string
  req_resource_version :: "string option"
  req_timeout_seconds :: int

text \<open>
  The client object \<open>core_v1\<close>, a parameter of the sync pass. Its patch method takes
  name, namespace and body; on a store in state \<open>'st\<close> it returns the store after the call
  and the exception the call raised, if any.
\<close>

record 'st core_v1 =
  patch_namespaced_config_map ::
    "string \<Rightarrow> string \<Rightarrow> body \<Rightarrow> 'st \<Rightarrow> exn option \<times> 'st"

text \<open>
  Everything the module reads and writes: the remote store, the traces of its calls to
  the outside (patch requests, logging calls, stream openings, sleeps) and the two local
  variables of \<open>watch_source_configmap\<close>. A computation returns the exception that
  escapes it (\<open>None\<close> when it completes) and the state it leaves.
\<close>

record 'st state =
  store :: 'st
  patch_calls :: "(string \<times> string \<times> body) list"
  logs :: "(level \<times> string) list"
  stream_opens :: "watch_request list"
  sleeps :: "int list"
  resource_version :: "string option"
  backoff_time :: int

text \<open>
  A call of \<open>logging.debug\<close>, \<open>info\<close>, \<open>warning\<close>, \<open>error\<close> or \<open>critical\<close>. The trace
  keeps every call with its level; the root logger, configured at \<open>INFO\<close>, emits all of
  them but those at \<open>DEBUG\<close>.
\<close>

definition logging :: "level \<Rightarrow> string \<Rightarrow> 'st state \<Rightarrow> 'st state" where
  "logging l msg s = s\<lparr>logs := logs s @ [(l, msg)]\<rparr>"

text \<open>Decimal rendering of the integers that appear in f-strings.\<close>

fun str_nat :: "nat \<Rightarrow> string" where
  "str_nat n =
     (if n < 10 then [''0123456789'' ! n]
      else str_nat (n div 10) @ [''0123456789'' ! (n mod 10)])"

declare str_nat.simps [simp del]

definition str_int :: "int \<Rightarrow> string" where
  "str_int i = (if i < 0 then ''-'' @ str_nat (nat (- i)) else str_nat (nat i))"

section \<open>The sync pass: \<open>sync_configmap_data\<close>\<close>

text \<open>Python's \<open>not source_data\<close>: true for \<open>None\<close> and for the empty dict.\<close>

fun py_not :: "str_dict option \<Rightarrow> bool" where
  "py_not None = True"
| "py_not (Some d) = (d = [])"

text \<open>The \<open>try\<close> block of one loop iteration: the patch call, then the info line.\<close>

definition try_patch ::
  "'st core_v1 \<Rightarrow> string \<Rightarrow> string \<Rightarrow> body \<Rightarrow> 'st state \<Rightarrow> exn option \<times> 'st state" where
  "try_patch api target_name target_ns bdy s =
     (case patch_namespaced_config_map api target_name target_ns bdy (store s) of
        (r, st') \<Rightarrow>
          (let s1 = s\<lparr>store := st',
                      patch_calls := patch_calls s @ [(target_name, target_ns, bdy)]\<rparr>
           in case r of
                Some e \<Rightarrow> (Some e, s1)
              | None \<Rightarrow>
                  (None, logging INFO
                     (''Successfully synced data to ConfigMap: '' @ target_ns @ ''/'' @ target_name)
                     s1)))"

text \<open>
  The \<open>except\<close> clauses of that iteration, in source order: \<open>ApiException\<close> (status 404
  logs and continues, any other status logs), then \<open>Exception\<close>.
\<close>

fun except_patch ::
  "string \<Rightarrow> string \<Rightarrow> exn \<Rightarrow> 'st state \<Rightarrow> exn option \<times> 'st state" where
  "except_patch target_name target_ns (ApiException status txt) s =
     (if status = 404 then
        (None, logging ERROR
           (''Target ConfigMap '' @ target_ns @ ''/'' @ target_name @ '' not found. Skipping.'') s)
      else
        (None, logging ERROR
           (''Failed to patch ConfigMap '' @ target_ns @ ''/'' @ target_name @ '': '' @ txt) s))"
| "except_patch target_name target_ns e s =
     (None, logging CRITICAL (''An unexpected error occurred during sync: '' @ str_exn e) s)"

definition sync_target ::
  "str_dict \<Rightarrow> 'st core_v1 \<Rightarrow> target \<Rightarrow> 'st state \<Rightarrow> exn option \<times> 'st state" where
  "sync_target source_data api t s =
     (let target_name = name t;
          target_ns = namespace t;
          bdy = [(''data'', source_data)]
      in case try_patch api target_name target_ns bdy s of
           (None, s1) \<Rightarrow> (None, s1)
         | (Some e, s1) \<Rightarrow> except_patch target_name target_ns e s1)"

text \<open>The \<open>for target in TARGET_CONFIGMAPS\<close> loop; an escaping exception would end it.\<close>

fun sync_targets ::
  "str_dict \<Rightarrow> 'st core_v1 \<Rightarrow> target list \<Rightarrow> 'st state \<Rightarrow> exn option \<times> 'st state" where
  "sync_targets source_data api [] s = (None, s)"
| "sync_targets source_data api (t # ts) s =
     (case sync_target source_data api t s of
        (Some e, s1) \<Rightarrow> (Some e, s1)
      | (None, s1) \<Rightarrow> sync_targets source_data api ts s1)"

definition sync_configmap_data ::
  "str_dict option \<Rightarrow> 'st core_v1 \<Rightarrow> 'st state \<Rightarrow> exn option \<times> 'st state" where
  "sync_configmap_data source_data api s =
     (if py_not source_data then
        (None, logging WARNING ''Source ConfigMap data is empty. Skipping synchronization.'' s)
      else
        sync_targets (the source_data) api TARGET_CONFIGMAPS
          (logging INFO
             (''Source ConfigMap data changed. Syncing to ''
                @ str_nat (length TARGET_CONFIGMAPS) @ '' target ConfigMaps...'') s))"

section \<open>The watch loop: \<open>watch_source_configmap\<close>\<close>

text \<open>The body of \<open>for event in w.stream(...)\<close>.\<close>

definition process_event ::
  "'st core_v1 \<Rightarrow> event \<Rightarrow> 'st state \<Rightarrow> exn option \<times> 'st state" where
  "process_event api ev s =
     (let event_type = ev_type ev;
          cm_obj = ev_object ev;
          cm_name = md_name (cm_metadata cm_obj);
          current_data = cm_data cm_obj;
          s1 = s\<lparr>resource_version := md_resource_version (cm_metadata cm_obj)\<rparr>
      in if event_type \<in> set [''ADDED'', ''MODIFIED''] then
           (case sync_configmap_data current_data api s1 of
              (Some e, s2) \<Rightarrow> (Some e, s2)
            | (None, s2) \<Rightarrow> (None, s2\<lparr>backoff_time := 1\<rparr>))
         else if event_type = ''DELETED'' then
           (None, logging WARNING
              (''Source ConfigMap '' @ cm_name
                 @ '' was deleted. Target ConfigMaps will NOT be deleted.'') s1)
         else
           (None, logging DEBUG (''Ignored event type: '' @ event_type) s1))"

fun consume ::
  "'st core_v1 \<Rightarrow> event list \<Rightarrow> 'st state \<Rightarrow> exn option \<times> 'st state" where
  "consume api [] s = (None, s)"
| "consume api (ev # evs) s =
     (case process_event api ev s of
        (Some e, s1) \<Rightarrow> (Some e, s1)
      | (None, s1) \<Rightarrow> consume api evs s1)"

text \<open>
  The \<open>try\<close> block of one turn of \<open>while True\<close>: the stream is opened with the current
  \<open>resource_version\<close>, its events are processed, and the way the generator ends decides
  whether the block raises.
\<close>

definition watch_try ::
  "'st core_v1 \<Rightarrow> session \<Rightarrow> 'st state \<Rightarrow> exn option \<times> 'st state" where
  "watch_try api c s =
     (let field_selector = ''metadata.name='' @ SOURCE_CONFIGMAP_NAME;
          s1 = logging INFO
                 (''Starting watch stream for '' @ SOURCE_CONFIGMAP_NAMESPACE @ ''/''
                    @ SOURCE_CONFIGMAP_NAME @ ''...'') s;
          s2 = s1\<lparr>stream_opens := stream_opens s1 @
                     [\<lparr>req_namespace = SOURCE_CONFIGMAP_NAMESPACE,
                       req_field_selector = field_selector,
                       req_resource_version = resource_version s1,
                       req_timeout_seconds = 600\<rparr>]\<rparr>
      in case consume api (events c) s2 of
           (Some e, s3) \<Rightarrow> (Some e, s3)
         | (None, s3) \<Rightarrow> (ending c, s3))"

text \<open>
  The second \<open>except\<close> clause of the loop names its class by the expression
  \<open>client.exceptions.MaxRetryError\<close>, which Python evaluates when an exception reaches
  that clause. The module \<open>kubernetes.client.exceptions\<close> of the client library defines
  \<open>OpenApiException\<close>, \<open>ApiTypeError\<close>, \<open>ApiValueError\<close>, \<open>ApiKeyError\<close> and
  \<open>ApiException\<close>; it has no attribute \<open>MaxRetryError\<close> (that class belongs to
  \<open>urllib3.exceptions\<close>). So the evaluation raises \<open>AttributeError\<close>.
\<close>

definition exceptions_has_MaxRetryError :: bool where
  "exceptions_has_MaxRetryError = False"

definition no_attribute :: exn where
  "no_attribute =
     AttributeError ''module kubernetes.client.exceptions has no attribute MaxRetryError''"

text \<open>
  The three \<open>except\<close> clauses of the loop, in source order. An \<open>ApiException\<close> is
  handled by the first. Any other exception reaches the second clause, whose class
  expression is evaluated first: when that raises, the new exception leaves the \<open>try\<close>
  statement, and neither the second nor the third clause handles anything.
\<close>

fun watch_except :: "exn \<Rightarrow> 'st state \<Rightarrow> exn option \<times> 'st state" where
  "watch_except (ApiException status txt) s =
     (None, logging ERROR
        (''Kubernetes API Exception in watch loop (Check RBAC!): '' @ txt) s)"
| "watch_except (MaxRetryError txt) s =
     (if exceptions_has_MaxRetryError then
        (None, logging ERROR (''MaxRetryError (likely network issue): '' @ txt) s)
      else (Some no_attribute, s))"
| "watch_except e s =
     (if exceptions_has_MaxRetryError then
        (None, logging CRITICAL
           (''An unexpected error occurred in the watch stream: '' @ str_exn e) s)
      else (Some no_attribute, s))"

text \<open>The \<open>try\<close> statement of the loop as a whole: the block under its handlers.\<close>

definition watch_guarded ::
  "'st core_v1 \<Rightarrow> session \<Rightarrow> 'st state \<Rightarrow> exn option \<times> 'st state" where
  "watch_guarded api c s =
     (case watch_try api c s of
        (None, s1) \<Rightarrow> (None, s1)
      | (Some e, s1) \<Rightarrow> watch_except e s1)"

text \<open>One turn of \<open>while True\<close>: the \<open>try\<close> statement, then sleep and doubling.\<close>

definition watch_iteration ::
  "'st core_v1 \<Rightarrow> session \<Rightarrow> 'st state \<Rightarrow> exn option \<times> 'st state" where
  "watch_iteration api c s =
     (case watch_guarded api c s of
        (Some e, s2) \<Rightarrow> (Some e, s2)
      | (None, s2) \<Rightarrow>
          (let s3 = logging INFO
                      (''Watch stream disconnected. Retrying in ''
                         @ str_int (backoff_time s2) @ '' seconds...'') s2;
               s4 = s3\<lparr>sleeps := sleeps s3 @ [backoff_time s3]\<rparr>
           in (None, s4\<lparr>backoff_time := min (backoff_time s4 * 2) 60\<rparr>)))"

text \<open>
  \<open>while True\<close> has no exit of its own. The loop is run against the connections the
  environment supplies, one per turn; when they are used up the loop is still running
  (\<open>None\<close>), and only an escaping exception (\<open>Some e\<close>) ends it earlier.
\<close>

fun watch_loop ::
  "'st core_v1 \<Rightarrow> session list \<Rightarrow> 'st state \<Rightarrow> exn option \<times> 'st state" where
  "watch_loop api [] s = (None, s)"
| "watch_loop api (c # cs) s =
     (case watch_iteration api c s of
        (Some e, s1) \<Rightarrow> (Some e, s1)
      | (None, s1) \<Rightarrow> watch_loop api cs s1)"

text \<open>
  The environment of a run: whether \<open>config.load_incluster_config()\<close>,
  \<open>client.CoreV1Api()\<close> and \<open>watch.Watch()\<close> raise, and the connections of the stream.
\<close>

record 'st env =
  load_incluster_config :: "exn option"
  CoreV1Api :: "exn + 'st core_v1"
  Watch :: "exn option"
  sessions :: "session list"

datatype outcome = Returned | Raised exn | Looping

text \<open>The bootstrap \<open>try\<close> block: \<open>Inl\<close> the exception raised, \<open>Inr\<close> the client.\<close>

definition bootstrap :: "'st env \<Rightarrow> 'st state \<Rightarrow> (exn + 'st core_v1) \<times> 'st state" where
  "bootstrap en s =
     (case load_incluster_config en of
        Some e \<Rightarrow> (Inl e, s)
      | None \<Rightarrow>
          (let s1 = logging INFO ''Kubernetes in-cluster configuration loaded successfully.'' s
           in case CoreV1Api en of
                Inl e \<Rightarrow> (Inl e, s1)
              | Inr api \<Rightarrow>
                  (case Watch en of
                     Some e \<Rightarrow> (Inl e, s1)
                   | None \<Rightarrow> (Inr api, s1))))"

definition watch_source_configmap :: "'st env \<Rightarrow> 'st state \<Rightarrow> outcome \<times> 'st state" where
  "watch_source_configmap en s =
     (case bootstrap en s of
        (Inl e, s1) \<Rightarrow>
          (Returned, logging CRITICAL
             (''Failed to initialize Kubernetes client (Are you running in-cluster?): ''
                @ str_exn e) s1)
      | (Inr api, s1) \<Rightarrow>
          (case watch_loop api (sessions en)
                  (s1\<lparr>resource_version := None, backoff_time := 1\<rparr>) of
             (Some e, s2) \<Rightarrow> (Raised e, s2)
           | (None, s2) \<Rightarrow> (Looping, s2)))"

section \<open>The remote store\<close>

text \<open>
  Modelled from the spec: the patch capability of the remote object store, which is the
  Kubernetes API server behind \<open>core_v1\<close> and not part of the module. The spec gives it
  as: it accepts namespace, name and the new data field, performs a full replace of that
  object's data field only, leaving every other field of the object untouched, and
  returns a not-found condition (status 404) distinguishable from other failures. When a
  request fails otherwise is left open; here \<open>failing\<close> lists, per object (namespace and
  name), the exception a request on it raises. Objects are keyed by namespace and name.
\<close>

record stored_object =
  data_field :: "str_dict option"
  other_fields :: "(string \<times> string) list"

record kv_store =
  objects :: "((string \<times> string) \<times> stored_object) list"
  failing :: "((string \<times> string) \<times> exn) list"

definition store_patch ::
  "string \<Rightarrow> string \<Rightarrow> body \<Rightarrow> kv_store \<Rightarrow> exn option \<times> kv_store" where
  "store_patch nm ns bdy st =
     (case map_of (failing st) (ns, nm) of
        Some e \<Rightarrow> (Some e, st)
      | None \<Rightarrow>
          (case map_of (objects st) (ns, nm) of
             None \<Rightarrow> (Some (ApiException 404 ''Not Found''), st)
           | Some ob \<Rightarrow>
               (case map_of bdy ''data'' of
                  None \<Rightarrow> (None, st)
                | Some d \<Rightarrow>
                    (None, st\<lparr>objects :=
                       AList.update (ns, nm) (ob\<lparr>data_field := Some d\<rparr>) (objects st)\<rparr>))))"

definition store_api :: "kv_store core_v1" where
  "store_api = \<lparr>patch_namespaced_config_map = store_patch\<rparr>"

section \<open>Reference sequences\<close>

text \<open>
  The cursor sequence in the spec's words: the first stream opening of a run presents the
  cursor the run starts with, and each later opening presents the cursor observed on the
  most recently processed event of the connection before it (a connection that yielded
  no event leaves the cursor as it was).
\<close>

definition cursor_after :: "string option \<Rightarrow> session \<Rightarrow> string option" where
  "cursor_after cur c =
     (if events c = [] then cur
      else md_resource_version (cm_metadata (ev_object (last (events c)))))"

fun cursors_presented :: "string option \<Rightarrow> session list \<Rightarrow> string option list" where
  "cursors_presented cur [] = []"
| "cursors_presented cur (c # cs) = cur # cursors_presented (cursor_after cur c) cs"

text \<open>
  An ending of a connection is handled when the \<open>try\<close> statement of the loop contains it:
  the generator is exhausted, or it raises an \<open>ApiException\<close>. The connections made in
  a run are those up to and including the first whose ending is not handled.
\<close>

fun handled :: "exn option \<Rightarrow> bool" where
  "handled None = True"
| "handled (Some (ApiException status txt)) = True"
| "handled (Some e) = False"

fun connections_made :: "session list \<Rightarrow> session list" where
  "connections_made [] = []"
| "connections_made (c # cs) = c # (if handled (ending c) then connections_made cs else [])"

text \<open>An event is a sync event when the loop hands it to the sync pass.\<close>

definition sync_event :: "event \<Rightarrow> bool" where
  "sync_event ev = (ev_type ev = ''ADDED'' \<or> ev_type ev = ''MODIFIED'')"

section \<open>Concrete scenarios\<close>

text \<open>
  Stores, states, events and connections on which the theorems below are exercised. The
  two targets of \<open>TARGET_CONFIGMAPS\<close> are \<open>dev/config-1\<close> and \<open>stage/config-2\<close>.
\<close>

definition old_object :: stored_object where
  "old_object =
     \<lparr>data_field = Some [(''a'', ''0''), (''b'', ''2'')],
      other_fields = [(''immutable'', ''false'')]\<rparr>"

definition store_both :: kv_store where
  "store_both =
     \<lparr>objects = [((''dev'', ''config-1''), old_object), ((''stage'', ''config-2''), old_object)],
      failing = []\<rparr>"

definition store_first_absent :: kv_store where
  "store_first_absent =
     \<lparr>objects = [((''stage'', ''config-2''), old_object)], failing = []\<rparr>"

definition store_first_failing :: kv_store where
  "store_first_failing =
     \<lparr>objects = [((''dev'', ''config-1''), old_object), ((''stage'', ''config-2''), old_object)],
      failing = [((''dev'', ''config-1''), ApiException 500 ''Internal Server Error'')]\<rparr>"

definition fresh_state :: "kv_store \<Rightarrow> kv_store state" where
  "fresh_state st =
     \<lparr>store = st, patch_calls = [], logs = [], stream_opens = [], sleeps = [],
      resource_version = None, backoff_time = 1\<rparr>"

definition mk_event :: "string \<Rightarrow> string \<Rightarrow> str_dict option \<Rightarrow> event" where
  "mk_event ty rv d =
     \<lparr>ev_type = ty,
      ev_object = \<lparr>cm_metadata = \<lparr>md_name = SOURCE_CONFIGMAP_NAME,
                                  md_resource_version = Some rv\<rparr>,
                   cm_data = d\<rparr>\<rparr>"

definition broken_session :: session where
  "broken_session = \<lparr>events = [], ending = Some (MaxRetryError ''connection refused'')\<rparr>"

definition gone_session :: session where
  "gone_session = \<lparr>events = [], ending = Some (ApiException 410 ''Gone'')\<rparr>"

definition mixed_session :: session where
  "mixed_session =
     \<lparr>events = [mk_event ''ADDED'' ''10'' (Some [(''a'', ''1'')]),
                mk_event ''DELETED'' ''11'' (Some [(''a'', ''1'')]),
                mk_event ''BOOKMARK'' ''12'' None],
      ending = None\<rparr>"

definition failing_session :: session where
  "failing_session =
     \<lparr>events = [mk_event ''MODIFIED'' ''9'' (Some [(''a'', ''1'')])],
      ending = Some (ApiException 410 ''Gone'')\<rparr>"

definition good_env :: "session list \<Rightarrow> kv_store env" where
  "good_env cs =
     \<lparr>load_incluster_config = None, CoreV1Api = Inr store_api, Watch = None, sessions = cs\<rparr>"

definition no_watch_env :: "session list \<Rightarrow> kv_store env" where
  "no_watch_env cs =
     \<lparr>load_incluster_config = None, CoreV1Api = Inr store_api,
      Watch = Some (OtherException ''cannot create watch''), sessions = cs\<rparr>"

section \<open>The sync pass never raises and visits every target\<close>

lemma except_patch_no_raise: "fst (except_patch n ns e s) = None"
  by (cases e) simp_all

lemma sync_target_no_raise: "fst (sync_target d api t s) = None"
  by (simp add: sync_target_def Let_def except_patch_no_raise split: prod.splits option.splits)

lemma sync_targets_no_raise: "fst (sync_targets d api ts s) = None"
proof (induction ts arbitrary: s)
  case Nil
  show ?case by simp
next
  case (Cons t ts)
  obtain r s1 where st: "sync_target d api t s = (r, s1)" by (cases "sync_target d api t s")
  with sync_target_no_raise [of d api t s] have "r = None" by simp
  with st Cons.IH [of s1] show ?case by simp
qed

lemma except_patch_frame:
  "store (snd (except_patch n ns e s)) = store s"
  "patch_calls (snd (except_patch n ns e s)) = patch_calls s"
  "stream_opens (snd (except_patch n ns e s)) = stream_opens s"
  "sleeps (snd (except_patch n ns e s)) = sleeps s"
  "resource_version (snd (except_patch n ns e s)) = resource_version s"
  "backoff_time (snd (except_patch n ns e s)) = backoff_time s"
  by (cases e; simp add: logging_def)+

lemma sync_target_calls:
  "patch_calls (snd (sync_target d api t s)) =
     patch_calls s @ [(name t, namespace t, [(''data'', d)])]"
  by (simp add: sync_target_def try_patch_def Let_def logging_def except_patch_frame
      split: prod.splits option.splits)

lemma sync_target_frame:
  "stream_opens (snd (sync_target d api t s)) = stream_opens s"
  "sleeps (snd (sync_target d api t s)) = sleeps s"
  "resource_version (snd (sync_target d api t s)) = resource_version s"
  "backoff_time (snd (sync_target d api t s)) = backoff_time s"
  by (simp_all add: sync_target_def try_patch_def Let_def logging_def except_patch_frame
      split: prod.splits option.splits)

lemma sync_target_store:
  "store (snd (sync_target d api t s)) =
     snd (patch_namespaced_config_map api (name t) (namespace t) [(''data'', d)] (store s))"
  by (simp add: sync_target_def try_patch_def Let_def logging_def except_patch_frame
      split: prod.splits option.splits)

lemma sync_targets_step:
  "sync_targets d api (t # ts) s = sync_targets d api ts (snd (sync_target d api t s))"
  using sync_target_no_raise [of d api t s]
  by (cases "sync_target d api t s") simp

lemma sync_targets_calls:
  "patch_calls (snd (sync_targets d api ts s)) =
     patch_calls s @ map (\<lambda>t. (name t, namespace t, [(''data'', d)])) ts"
  by (induction ts arbitrary: s) (simp_all add: sync_targets_step sync_target_calls del: sync_targets.simps(2))

lemma sync_targets_frame:
  "stream_opens (snd (sync_targets d api ts s)) = stream_opens s"
  "sleeps (snd (sync_targets d api ts s)) = sleeps s"
  "resource_version (snd (sync_targets d api ts s)) = resource_version s"
  "backoff_time (snd (sync_targets d api ts s)) = backoff_time s"
  by (induction ts arbitrary: s; simp add: sync_targets_step sync_target_frame del: sync_targets.simps(2))+

section \<open>The sync pass on the store\<close>

lemma store_patch_failing:
  "failing (snd (store_patch nm ns bdy st)) = failing st"
  by (simp add: store_patch_def split: option.splits)

lemma store_patch_objects:
  "map_of (objects (snd (store_patch nm ns [(''data'', d)] st))) k =
     (if k = (ns, nm) \<and> map_of (failing st) k = None
      then map_option (\<lambda>ob. ob\<lparr>data_field := Some d\<rparr>) (map_of (objects st) k)
      else map_of (objects st) k)"
  by (auto simp: store_patch_def update_conv' split: option.splits)

lemma sync_target_store_failing:
  "failing (store (snd (sync_target d store_api t s))) = failing (store s)"
  by (simp add: sync_target_store store_api_def store_patch_failing)

lemma sync_target_store_objects:
  "map_of (objects (store (snd (sync_target d store_api t s)))) k =
     (if k = (namespace t, name t) \<and> map_of (failing (store s)) k = None
      then map_option (\<lambda>ob. ob\<lparr>data_field := Some d\<rparr>) (map_of (objects (store s)) k)
      else map_of (objects (store s)) k)"
  by (simp add: sync_target_store store_api_def store_patch_objects)

lemma sync_targets_store_failing:
  "failing (store (snd (sync_targets d store_api ts s))) = failing (store s)"
  by (induction ts arbitrary: s)
     (simp_all add: sync_targets_step sync_target_store_failing del: sync_targets.simps(2))

lemma sync_targets_store_objects:
  "map_of (objects (store (snd (sync_targets d store_api ts s)))) k =
     (if k \<in> (\<lambda>t. (namespace t, name t)) ` set ts \<and> map_of (failing (store s)) k = None
      then map_option (\<lambda>ob. ob\<lparr>data_field := Some d\<rparr>) (map_of (objects (store s)) k)
      else map_of (objects (store s)) k)"
proof (induction ts arbitrary: s)
  case Nil
  show ?case by simp
next
  case (Cons t ts)
  let ?s1 = "snd (sync_target d store_api t s)"
  have f: "failing (store ?s1) = failing (store s)"
    by (rule sync_target_store_failing)
  show ?case
    unfolding sync_targets_step Cons.IH [of ?s1] f sync_target_store_objects
    by (cases "map_of (objects (store s)) k") (auto simp: option.map_comp comp_def)
qed

section \<open>Processing events\<close>

lemma sync_configmap_data_no_raise: "fst (sync_configmap_data sd api s) = None"
  by (simp add: sync_configmap_data_def sync_targets_no_raise)

lemma sync_configmap_data_frame:
  "stream_opens (snd (sync_configmap_data sd api s)) = stream_opens s"
  "sleeps (snd (sync_configmap_data sd api s)) = sleeps s"
  "resource_version (snd (sync_configmap_data sd api s)) = resource_version s"
  "backoff_time (snd (sync_configmap_data sd api s)) = backoff_time s"
  by (simp_all add: sync_configmap_data_def sync_targets_frame logging_def)

lemma sync_configmap_data_skip:
  "py_not sd \<Longrightarrow> sync_configmap_data sd api s =
     (None, logging WARNING ''Source ConfigMap data is empty. Skipping synchronization.'' s)"
  by (simp add: sync_configmap_data_def)

lemma sync_configmap_data_calls:
  "d \<noteq> [] \<Longrightarrow> patch_calls (snd (sync_configmap_data (Some d) api s)) =
     patch_calls s @ map (\<lambda>t. (name t, namespace t, [(''data'', d)])) TARGET_CONFIGMAPS"
  by (simp add: sync_configmap_data_def sync_targets_calls logging_def)

lemma process_event_eq:
  "process_event api ev s =
     (None,
      if sync_event ev then
        (snd (sync_configmap_data (cm_data (ev_object ev)) api
           (s\<lparr>resource_version := md_resource_version (cm_metadata (ev_object ev))\<rparr>)))
          \<lparr>backoff_time := 1\<rparr>
      else if ev_type ev = ''DELETED'' then
        logging WARNING
          (''Source ConfigMap '' @ md_name (cm_metadata (ev_object ev))
             @ '' was deleted. Target ConfigMaps will NOT be deleted.'')
          (s\<lparr>resource_version := md_resource_version (cm_metadata (ev_object ev))\<rparr>)
      else
        logging DEBUG (''Ignored event type: '' @ ev_type ev)
          (s\<lparr>resource_version := md_resource_version (cm_metadata (ev_object ev))\<rparr>))"
proof -
  let ?s1 = "s\<lparr>resource_version := md_resource_version (cm_metadata (ev_object ev))\<rparr>"
  obtain r s2 where sc: "sync_configmap_data (cm_data (ev_object ev)) api ?s1 = (r, s2)"
    by (cases "sync_configmap_data (cm_data (ev_object ev)) api ?s1")
  with sync_configmap_data_no_raise [of "cm_data (ev_object ev)" api ?s1] have "r = None"
    by simp
  with sc show ?thesis
    by (simp add: process_event_def sync_event_def Let_def)
qed

lemma process_event_no_raise: "fst (process_event api ev s) = None"
  by (simp add: process_event_eq)

lemma process_event_cursor:
  "resource_version (snd (process_event api ev s)) = md_resource_version (cm_metadata (ev_object ev))"
  by (simp add: process_event_eq sync_configmap_data_frame logging_def)

lemma process_event_backoff:
  "backoff_time (snd (process_event api ev s)) = (if sync_event ev then 1 else backoff_time s)"
  by (simp add: process_event_eq logging_def)

lemma process_event_frame:
  "stream_opens (snd (process_event api ev s)) = stream_opens s"
  "sleeps (snd (process_event api ev s)) = sleeps s"
  by (simp_all add: process_event_eq sync_configmap_data_frame logging_def)

lemma consume_step:
  "consume api (ev # evs) s = consume api evs (snd (process_event api ev s))"
  using process_event_no_raise [of api ev s]
  by (cases "process_event api ev s") simp

lemma consume_no_raise: "fst (consume api evs s) = None"
  by (induction evs arbitrary: s) (simp_all add: consume_step del: consume.simps(2))

lemma consume_frame:
  "stream_opens (snd (consume api evs s)) = stream_opens s"
  "sleeps (snd (consume api evs s)) = sleeps s"
  by (induction evs arbitrary: s; simp add: consume_step process_event_frame del: consume.simps(2))+

lemma consume_cursor:
  "resource_version (snd (consume api evs s)) =
     (if evs = [] then resource_version s
      else md_resource_version (cm_metadata (ev_object (last evs))))"
  by (induction evs arbitrary: s)
     (simp_all add: consume_step process_event_cursor del: consume.simps(2))

lemma consume_backoff_quiet:
  "\<forall>ev \<in> set evs. \<not> sync_event ev \<Longrightarrow> backoff_time (snd (consume api evs s)) = backoff_time s"
  by (induction evs arbitrary: s)
     (simp_all add: consume_step process_event_backoff del: consume.simps(2))

section \<open>Turns of the watch loop\<close>

lemma watch_except_raises:
  "fst (watch_except e s) = (if handled (Some e) then None else Some no_attribute)"
  by (cases e) (simp_all add: exceptions_has_MaxRetryError_def)

lemma watch_except_frame:
  "stream_opens (snd (watch_except e s)) = stream_opens s"
  "sleeps (snd (watch_except e s)) = sleeps s"
  "resource_version (snd (watch_except e s)) = resource_version s"
  "backoff_time (snd (watch_except e s)) = backoff_time s"
  "store (snd (watch_except e s)) = store s"
  "patch_calls (snd (watch_except e s)) = patch_calls s"
  by (cases e; simp add: logging_def exceptions_has_MaxRetryError_def)+

lemma watch_try_eq:
  "watch_try api c s =
     (ending c,
      snd (consume api (events c)
        ((logging INFO
            (''Starting watch stream for '' @ SOURCE_CONFIGMAP_NAMESPACE @ ''/''
               @ SOURCE_CONFIGMAP_NAME @ ''...'') s)
         \<lparr>stream_opens := stream_opens s @
            [\<lparr>req_namespace = SOURCE_CONFIGMAP_NAMESPACE,
              req_field_selector = ''metadata.name='' @ SOURCE_CONFIGMAP_NAME,
              req_resource_version = resource_version s,
              req_timeout_seconds = 600\<rparr>]\<rparr>)))"
proof -
  let ?s2 = "(logging INFO
            (''Starting watch stream for '' @ SOURCE_CONFIGMAP_NAMESPACE @ ''/''
               @ SOURCE_CONFIGMAP_NAME @ ''...'') s)
         \<lparr>stream_opens := stream_opens s @
            [\<lparr>req_namespace = SOURCE_CONFIGMAP_NAMESPACE,
              req_field_selector = ''metadata.name='' @ SOURCE_CONFIGMAP_NAME,
              req_resource_version = resource_version s,
              req_timeout_seconds = 600\<rparr>]\<rparr>"
  obtain r s3 where co: "consume api (events c) ?s2 = (r, s3)"
    by (cases "consume api (events c) ?s2")
  with consume_no_raise [of api "events c" ?s2] have "r = None" by simp
  with co show ?thesis
    by (simp add: watch_try_def Let_def logging_def)
qed

lemma watch_try_frame:
  "stream_opens (snd (watch_try api c s)) = stream_opens s @
     [\<lparr>req_namespace = SOURCE_CONFIGMAP_NAMESPACE,
       req_field_selector = ''metadata.name='' @ SOURCE_CONFIGMAP_NAME,
       req_resource_version = resource_version s,
       req_timeout_seconds = 600\<rparr>]"
  "sleeps (snd (watch_try api c s)) = sleeps s"
  "resource_version (snd (watch_try api c s)) = cursor_after (resource_version s) c"
  by (simp_all add: watch_try_eq logging_def consume_frame consume_cursor cursor_after_def)

lemma watch_try_backoff_quiet:
  "\<forall>ev \<in> set (events c). \<not> sync_event ev \<Longrightarrow>
     backoff_time (snd (watch_try api c s)) = backoff_time s"
  by (simp add: watch_try_eq logging_def consume_backoff_quiet)

lemma watch_guarded_raises:
  "fst (watch_guarded api c s) = (if handled (ending c) then None else Some no_attribute)"
  by (cases "ending c") (simp_all add: watch_guarded_def watch_try_eq watch_except_raises)

lemma watch_guarded_frame:
  "stream_opens (snd (watch_guarded api c s)) = stream_opens s @
     [\<lparr>req_namespace = SOURCE_CONFIGMAP_NAMESPACE,
       req_field_selector = ''metadata.name='' @ SOURCE_CONFIGMAP_NAME,
       req_resource_version = resource_version s,
       req_timeout_seconds = 600\<rparr>]"
  "sleeps (snd (watch_guarded api c s)) = sleeps s"
  "resource_version (snd (watch_guarded api c s)) = cursor_after (resource_version s) c"
  using watch_try_frame [of api c s]
  by (cases "ending c"; simp add: watch_guarded_def watch_try_eq watch_except_frame)+

lemma watch_guarded_backoff_quiet:
  "\<forall>ev \<in> set (events c). \<not> sync_event ev \<Longrightarrow>
     backoff_time (snd (watch_guarded api c s)) = backoff_time s"
  using watch_try_backoff_quiet [of c api s]
  by (cases "ending c") (simp_all add: watch_guarded_def watch_try_eq watch_except_frame)

lemma watch_iteration_handled:
  "handled (ending c) \<Longrightarrow>
   watch_iteration api c s =
     (None, (logging INFO
               (''Watch stream disconnected. Retrying in ''
                  @ str_int (backoff_time (snd (watch_guarded api c s))) @ '' seconds...'')
               (snd (watch_guarded api c s)))
            \<lparr>sleeps := sleeps (snd (watch_guarded api c s))
                        @ [backoff_time (snd (watch_guarded api c s))],
             backoff_time := min (backoff_time (snd (watch_guarded api c s)) * 2) 60\<rparr>)"
  using watch_guarded_raises [of api c s]
  by (cases "watch_guarded api c s") (simp add: watch_iteration_def Let_def logging_def)

lemma watch_iteration_unhandled:
  "\<not> handled (ending c) \<Longrightarrow>
   watch_iteration api c s = (Some no_attribute, snd (watch_guarded api c s))"
  using watch_guarded_raises [of api c s]
  by (cases "watch_guarded api c s") (simp add: watch_iteration_def)

lemma watch_iteration_raises:
  "fst (watch_iteration api c s) = (if handled (ending c) then None else Some no_attribute)"
  by (simp add: watch_iteration_handled watch_iteration_unhandled)

lemma watch_iteration_opens:
  "stream_opens (snd (watch_iteration api c s)) = stream_opens s @
     [\<lparr>req_namespace = SOURCE_CONFIGMAP_NAMESPACE,
       req_field_selector = ''metadata.name='' @ SOURCE_CONFIGMAP_NAME,
       req_resource_version = resource_version s,
       req_timeout_seconds = 600\<rparr>]"
  by (cases "handled (ending c)")
     (simp_all add: watch_iteration_handled watch_iteration_unhandled logging_def
        watch_guarded_frame)

lemma watch_iteration_cursor:
  "resource_version (snd (watch_iteration api c s)) = cursor_after (resource_version s) c"
  by (cases "handled (ending c)")
     (simp_all add: watch_iteration_handled watch_iteration_unhandled logging_def
        watch_guarded_frame)

lemma watch_iteration_sleeps_quiet:
  "\<forall>ev \<in> set (events c). \<not> sync_event ev \<Longrightarrow>
     sleeps (snd (watch_iteration api c s)) =
       (if handled (ending c) then sleeps s @ [backoff_time s] else sleeps s)"
  by (simp add: watch_iteration_handled watch_iteration_unhandled logging_def
      watch_guarded_frame watch_guarded_backoff_quiet)

lemma watch_iteration_backoff_quiet:
  "\<forall>ev \<in> set (events c). \<not> sync_event ev \<Longrightarrow> handled (ending c) \<Longrightarrow>
     backoff_time (snd (watch_iteration api c s)) = min (backoff_time s * 2) 60"
  by (simp add: watch_iteration_handled logging_def watch_guarded_backoff_quiet)

lemma watch_loop_step:
  "watch_loop api (c # cs) s =
     (if handled (ending c) then watch_loop api cs (snd (watch_iteration api c s))
      else (Some no_attribute, snd (watch_iteration api c s)))"
  using watch_iteration_raises [of api c s]
  by (cases "watch_iteration api c s") simp

lemma watch_loop_raises:
  "fst (watch_loop api cs s) =
     (if list_all (\<lambda>c. handled (ending c)) cs then None else Some no_attribute)"
  by (induction cs arbitrary: s) (simp_all add: watch_loop_step del: watch_loop.simps(2))

lemma watch_loop_opens_length:
  "length (stream_opens (snd (watch_loop api cs s))) =
     length (stream_opens s) + length (connections_made cs)"
  by (induction cs arbitrary: s)
     (simp_all add: watch_loop_step watch_iteration_opens del: watch_loop.simps(2))

lemma watch_loop_cursors:
  "map req_resource_version (stream_opens (snd (watch_loop api cs s))) =
     map req_resource_version (stream_opens s) @
       cursors_presented (resource_version s) (connections_made cs)"
  by (induction cs arbitrary: s)
     (simp_all add: watch_loop_step watch_iteration_opens watch_iteration_cursor
        del: watch_loop.simps(2))

lemma connections_made_all:
  "list_all (\<lambda>c. handled (ending c)) cs \<Longrightarrow> connections_made cs = cs"
  by (induction cs) simp_all

lemma double_capped:
  "b \<le> 60 \<Longrightarrow> min (min (b * 2) 60 * 2 ^ k) 60 = min (b * 2 ^ Suc k) (60::int)"
proof (cases "b * 2 \<le> 60")
  case True
  then show ?thesis by (simp add: mult.assoc)
next
  case False
  have p: "(1::int) \<le> 2 ^ k" by simp
  from False have "60 < b * 2" by simp
  also have "b * 2 = b * 2 * 1" by simp
  also from False p have "b * 2 * 1 \<le> b * 2 * 2 ^ k"
    by (intro mult_left_mono) auto
  finally have "60 < b * 2 ^ Suc k" by (simp add: mult.assoc)
  moreover from p have "(60::int) \<le> 60 * 2 ^ k" by simp
  ultimately show ?thesis using False by simp
qed

lemma watch_loop_sleeps_quiet:
  "\<forall>c \<in> set cs. \<forall>ev \<in> set (events c). \<not> sync_event ev \<Longrightarrow> backoff_time s \<le> 60 \<Longrightarrow>
     sleeps (snd (watch_loop api cs s)) =
       sleeps s @ map (\<lambda>k. min (backoff_time s * 2 ^ k) 60)
                    [0..<length (takeWhile (\<lambda>c. handled (ending c)) cs)]"
proof (induction cs arbitrary: s)
  case Nil
  show ?case by simp
next
  case (Cons c cs)
  let ?s1 = "snd (watch_iteration api c s)"
  let ?n = "length (takeWhile (\<lambda>c. handled (ending c)) cs)"
  from Cons.prems have q: "\<forall>ev \<in> set (events c). \<not> sync_event ev" by simp
  show ?case
  proof (cases "handled (ending c)")
    case False
    then show ?thesis
      using watch_iteration_sleeps_quiet [OF q, of api s]
      by (simp add: watch_loop_step del: watch_loop.simps(2))
  next
    case True
    have b1: "backoff_time ?s1 = min (backoff_time s * 2) 60"
      using q True by (rule watch_iteration_backoff_quiet)
    have sl: "sleeps ?s1 = sleeps s @ [backoff_time s]"
      using watch_iteration_sleeps_quiet [OF q, of api s] True by simp
    have "sleeps (snd (watch_loop api cs ?s1)) =
            sleeps ?s1 @ map (\<lambda>k. min (backoff_time ?s1 * 2 ^ k) 60) [0..<?n]"
      using Cons.prems by (intro Cons.IH) (simp_all add: b1)
    also have "\<dots> = sleeps s @ backoff_time s #
                   map (\<lambda>k. min (backoff_time s * 2 ^ Suc k) 60) [0..<?n]"
      using Cons.prems(2) by (simp add: sl b1 double_capped del: power_Suc)
    also have "\<dots> = sleeps s @ map (\<lambda>k. min (backoff_time s * 2 ^ k) 60) [0..<Suc ?n]"
      using Cons.prems(2)
      by (simp add: upt_conv_Cons map_Suc_upt [symmetric] del: upt_Suc power_Suc)
    finally show ?thesis
      using True by (simp add: watch_loop_step del: watch_loop.simps(2) upt_Suc)
  qed
qed

section \<open>Events that do not reach the targets\<close>

lemma sync_targets_store_cong:
  "store s = store s' \<Longrightarrow>
     store (snd (sync_targets d api ts s)) = store (snd (sync_targets d api ts s'))"
proof (induction ts arbitrary: s s')
  case Nil
  then show ?case by simp
next
  case (Cons t ts)
  have "store (snd (sync_target d api t s)) = store (snd (sync_target d api t s'))"
    using Cons.prems by (simp add: sync_target_store)
  then have "store (snd (sync_targets d api ts (snd (sync_target d api t s)))) =
             store (snd (sync_targets d api ts (snd (sync_target d api t s'))))"
    by (rule Cons.IH)
  then show ?case by (simp only: sync_targets_step)
qed

lemma sync_configmap_data_store_cong:
  assumes "store s = store s'"
  shows "store (snd (sync_configmap_data sd api s)) = store (snd (sync_configmap_data sd api s'))"
proof (cases "py_not sd")
  case True
  with assms show ?thesis by (simp add: sync_configmap_data_skip logging_def)
next
  case False
  let ?m = "''Source ConfigMap data changed. Syncing to ''
              @ str_nat (length TARGET_CONFIGMAPS) @ '' target ConfigMaps...''"
  from assms have "store (logging INFO ?m s) = store (logging INFO ?m s')"
    by (simp add: logging_def)
  then have "store (snd (sync_targets (the sd) api TARGET_CONFIGMAPS (logging INFO ?m s))) =
             store (snd (sync_targets (the sd) api TARGET_CONFIGMAPS (logging INFO ?m s')))"
    by (rule sync_targets_store_cong)
  with False show ?thesis by (simp add: sync_configmap_data_def)
qed

lemma sync_configmap_data_calls_cong:
  assumes "patch_calls s = patch_calls s'"
  shows "patch_calls (snd (sync_configmap_data sd api s)) =
         patch_calls (snd (sync_configmap_data sd api s'))"
  using assms by (simp add: sync_configmap_data_def logging_def sync_targets_calls)

lemma process_event_same:
  assumes "store s = store s'" and "patch_calls s = patch_calls s'"
  shows "store (snd (process_event api ev s)) = store (snd (process_event api ev s')) \<and>
         patch_calls (snd (process_event api ev s)) = patch_calls (snd (process_event api ev s'))"
proof -
  let ?rv = "md_resource_version (cm_metadata (ev_object ev))"
  let ?sd = "cm_data (ev_object ev)"
  have st: "store (snd (sync_configmap_data ?sd api (s\<lparr>resource_version := ?rv\<rparr>))) =
            store (snd (sync_configmap_data ?sd api (s'\<lparr>resource_version := ?rv\<rparr>)))"
    by (rule sync_configmap_data_store_cong) (simp add: assms(1))
  have pc: "patch_calls (snd (sync_configmap_data ?sd api (s\<lparr>resource_version := ?rv\<rparr>))) =
            patch_calls (snd (sync_configmap_data ?sd api (s'\<lparr>resource_version := ?rv\<rparr>)))"
    by (rule sync_configmap_data_calls_cong) (simp add: assms(2))
  show ?thesis
    using st pc assms by (simp add: process_event_eq logging_def)
qed

lemma process_event_deleted:
  "ev_type ev = ''DELETED'' \<Longrightarrow> store (snd (process_event api ev s)) = store s"
  "ev_type ev = ''DELETED'' \<Longrightarrow> patch_calls (snd (process_event api ev s)) = patch_calls s"
  by (simp_all add: process_event_eq sync_event_def logging_def)

lemma consume_same:
  "store s = store s' \<Longrightarrow> patch_calls s = patch_calls s' \<Longrightarrow>
     store (snd (consume api evs s)) = store (snd (consume api evs s')) \<and>
     patch_calls (snd (consume api evs s)) = patch_calls (snd (consume api evs s'))"
proof (induction evs arbitrary: s s')
  case Nil
  then show ?case by simp
next
  case (Cons ev evs)
  from process_event_same [OF Cons.prems, of api ev]
  have "store (snd (consume api evs (snd (process_event api ev s)))) =
          store (snd (consume api evs (snd (process_event api ev s')))) \<and>
        patch_calls (snd (consume api evs (snd (process_event api ev s)))) =
          patch_calls (snd (consume api evs (snd (process_event api ev s'))))"
    by (intro Cons.IH) simp_all
  then show ?case by (simp only: consume_step)
qed

lemma consume_without_deleted:
  "store (snd (consume api evs s)) =
     store (snd (consume api (filter (\<lambda>ev. ev_type ev \<noteq> ''DELETED'') evs) s)) \<and>
   patch_calls (snd (consume api evs s)) =
     patch_calls (snd (consume api (filter (\<lambda>ev. ev_type ev \<noteq> ''DELETED'') evs) s))"
proof (induction evs arbitrary: s)
  case Nil
  show ?case by simp
next
  case (Cons ev evs)
  show ?case
  proof (cases "ev_type ev = ''DELETED''")
    case True
    have "store (snd (consume api evs (snd (process_event api ev s)))) =
            store (snd (consume api evs s)) \<and>
          patch_calls (snd (consume api evs (snd (process_event api ev s)))) =
            patch_calls (snd (consume api evs s))"
      by (rule consume_same) (simp_all add: process_event_deleted True)
    with Cons.IH [of s] True show ?thesis
      by (simp add: consume_step del: consume.simps(2))
  next
    case False
    with Cons.IH [of "snd (process_event api ev s)"] show ?thesis
      by (simp add: consume_step del: consume.simps(2))
  qed
qed

section \<open>Bootstrap and whole runs\<close>

lemma bootstrap_frame:
  "store (snd (bootstrap en s)) = store s"
  "patch_calls (snd (bootstrap en s)) = patch_calls s"
  "stream_opens (snd (bootstrap en s)) = stream_opens s"
  "sleeps (snd (bootstrap en s)) = sleeps s"
  by (simp_all add: bootstrap_def Let_def logging_def split: option.splits sum.splits)

lemma bootstrap_ok:
  "load_incluster_config en = None \<Longrightarrow> CoreV1Api en = Inr api \<Longrightarrow> Watch en = None \<Longrightarrow>
     bootstrap en s =
       (Inr api, logging INFO ''Kubernetes in-cluster configuration loaded successfully.'' s)"
  by (simp add: bootstrap_def Let_def)

lemma bootstrap_fails:
  "load_incluster_config en = Some e \<Longrightarrow> fst (bootstrap en s) = Inl e"
  "load_incluster_config en = None \<Longrightarrow> CoreV1Api en = Inl e \<Longrightarrow> fst (bootstrap en s) = Inl e"
  "load_incluster_config en = None \<Longrightarrow> CoreV1Api en = Inr api \<Longrightarrow> Watch en = Some e \<Longrightarrow>
     fst (bootstrap en s) = Inl e"
  by (simp_all add: bootstrap_def Let_def)

lemma watch_source_configmap_entered:
  "fst (bootstrap en s) = Inr api \<Longrightarrow>
     watch_source_configmap en s =
       (if list_all (\<lambda>c. handled (ending c)) (sessions en) then Looping else Raised no_attribute,
        snd (watch_loop api (sessions en)
          ((snd (bootstrap en s))\<lparr>resource_version := None, backoff_time := 1\<rparr>)))"
  using watch_loop_raises
    [of api "sessions en" "(snd (bootstrap en s))\<lparr>resource_version := None, backoff_time := 1\<rparr>"]
  by (cases "bootstrap en s";
      cases "watch_loop api (sessions en)
               ((snd (bootstrap en s))\<lparr>resource_version := None, backoff_time := 1\<rparr>)")
     (simp add: watch_source_configmap_def)

lemma watch_source_configmap_stopped:
  "fst (bootstrap en s) = Inl e \<Longrightarrow>
     watch_source_configmap en s =
       (Returned, logging CRITICAL
          (''Failed to initialize Kubernetes client (Are you running in-cluster?): ''
             @ str_exn e) (snd (bootstrap en s)))"
  by (cases "bootstrap en s") (simp add: watch_source_configmap_def)

lemma bootstrap_failure_returns:
  assumes "load_incluster_config en = Some e \<or>
           load_incluster_config en = None \<and> CoreV1Api en = Inl e \<or>
           load_incluster_config en = None \<and> CoreV1Api en = Inr api \<and> Watch en = Some e"
  shows "fst (watch_source_configmap en s) = Returned \<and>
         stream_opens (snd (watch_source_configmap en s)) = stream_opens s \<and>
         patch_calls (snd (watch_source_configmap en s)) = patch_calls s \<and>
         sleeps (snd (watch_source_configmap en s)) = sleeps s \<and>
         store (snd (watch_source_configmap en s)) = store s"
proof -
  from assms have "fst (bootstrap en s) = Inl e"
    by (auto simp: bootstrap_fails)
  then show ?thesis
    by (simp add: watch_source_configmap_stopped bootstrap_frame logging_def)
qed

lemma loop_contains_handled_endings:
  assumes "load_incluster_config en = None" and "CoreV1Api en = Inr api" and "Watch en = None"
    and "list_all (\<lambda>c. handled (ending c)) (sessions en)"
  shows "fst (watch_source_configmap en s) = Looping \<and>
         length (stream_opens (snd (watch_source_configmap en s))) =
           length (stream_opens s) + length (sessions en)"
proof -
  from assms(1-3) have b: "fst (bootstrap en s) = Inr api"
    by (simp add: bootstrap_ok)
  show ?thesis
    using assms(4)
    by (simp add: watch_source_configmap_entered [OF b] watch_loop_opens_length
        connections_made_all bootstrap_frame)
qed

lemma loop_ends_at_unhandled_ending:
  assumes "load_incluster_config en = None" and "CoreV1Api en = Inr api" and "Watch en = None"
    and "\<not> list_all (\<lambda>c. handled (ending c)) (sessions en)"
  shows "fst (watch_source_configmap en s) = Raised no_attribute \<and>
         length (stream_opens (snd (watch_source_configmap en s))) =
           length (stream_opens s) + length (connections_made (sessions en))"
proof -
  from assms(1-3) have b: "fst (bootstrap en s) = Inr api"
    by (simp add: bootstrap_ok)
  show ?thesis
    using assms(4)
    by (simp add: watch_source_configmap_entered [OF b] watch_loop_opens_length bootstrap_frame)
qed

lemma backoff_delays_of_a_run:
  assumes "load_incluster_config en = None" and "CoreV1Api en = Inr api" and "Watch en = None"
    and "\<forall>c \<in> set (sessions en). \<forall>ev \<in> set (events c). \<not> sync_event ev"
  shows "sleeps (snd (watch_source_configmap en s)) =
           sleeps s @ map (\<lambda>k. min (2 ^ k) 60)
                        [0..<length (takeWhile (\<lambda>c. handled (ending c)) (sessions en))]"
proof -
  let ?s1 = "(snd (bootstrap en s))\<lparr>resource_version := None, backoff_time := 1\<rparr>"
  from assms(1-3) have b: "fst (bootstrap en s) = Inr api"
    by (simp add: bootstrap_ok)
  have "sleeps (snd (watch_loop api (sessions en) ?s1)) =
          sleeps ?s1 @ map (\<lambda>k. min (backoff_time ?s1 * 2 ^ k) 60)
                         [0..<length (takeWhile (\<lambda>c. handled (ending c)) (sessions en))]"
    using assms(4) by (intro watch_loop_sleeps_quiet) simp_all
  then show ?thesis
    by (simp add: watch_source_configmap_entered [OF b] bootstrap_frame)
qed

section \<open>Properties\<close>

subsection \<open>C1: what a replicate pass leaves on the targets\<close>

text \<open>
  C1, as the code has it. For an \<open>ADDED\<close> or \<open>MODIFIED\<close> event with a non-empty
  snapshot \<open>S\<close> and any target of \<open>TARGET_CONFIGMAPS\<close>: if the target exists in the store
  and its patch request does not fail, then after the event its data field is exactly
  \<open>S\<close> (a full replace: keys that are not in \<open>S\<close> are gone) and its other fields are as
  before; if the request fails or the target does not exist, the store holds for that
  target what it held before.
\<close>

theorem replicate_replaces_data_of_patched_targets:
  assumes "ev_type ev = ''ADDED'' \<or> ev_type ev = ''MODIFIED''"
    and "cm_data (ev_object ev) = Some S" and "S \<noteq> []"
    and "t \<in> set TARGET_CONFIGMAPS"
  shows "(map_of (failing (store s)) (namespace t, name t) = None \<and>
          map_of (objects (store s)) (namespace t, name t) = Some ob \<longrightarrow>
            map_of (objects (store (snd (process_event store_api ev s))))
              (namespace t, name t) =
            Some \<lparr>data_field = Some S, other_fields = other_fields ob\<rparr>) \<and>
         (map_of (failing (store s)) (namespace t, name t) \<noteq> None \<or>
          map_of (objects (store s)) (namespace t, name t) = None \<longrightarrow>
            map_of (objects (store (snd (process_event store_api ev s))))
              (namespace t, name t) =
            map_of (objects (store s)) (namespace t, name t))"
proof -
  let ?k = "(namespace t, name t)"
  let ?s1 = "s\<lparr>resource_version := md_resource_version (cm_metadata (ev_object ev))\<rparr>"
  let ?s2 = "logging INFO
             (''Source ConfigMap data changed. Syncing to ''
                @ str_nat (length TARGET_CONFIGMAPS) @ '' target ConfigMaps...'') ?s1"
  from assms(1) have ev: "store (snd (process_event store_api ev s)) =
      store (snd (sync_configmap_data (cm_data (ev_object ev)) store_api ?s1))"
    by (simp add: process_event_eq sync_event_def)
  from assms(3) have eq: "sync_configmap_data (Some S) store_api ?s1 =
      sync_targets S store_api TARGET_CONFIGMAPS ?s2"
    by (simp add: sync_configmap_data_def)
  have st: "store ?s2 = store s" by (simp add: logging_def)
  from assms(4) have mem: "?k \<in> (\<lambda>t. (namespace t, name t)) ` set TARGET_CONFIGMAPS"
    by (rule imageI)
  have "map_of (objects (store (snd (process_event store_api ev s)))) ?k =
      (if map_of (failing (store s)) ?k = None
       then map_option (\<lambda>ob. ob\<lparr>data_field := Some S\<rparr>) (map_of (objects (store s)) ?k)
       else map_of (objects (store s)) ?k)"
    unfolding ev assms(2) eq sync_targets_store_objects st using mem by simp
  then show ?thesis by (cases ob) auto
qed

text \<open>
  The theorem at \<open>dev/config-1\<close> holding \<open>{"a": "0", "b": "2"}\<close> and the snapshot
  \<open>{"a": "1"}\<close>: once on a store that accepts the patch (\<open>b\<close> is dropped), once on a store
  that answers the request with status 500 (the object stays as it was).
\<close>

theorem replicate_replaces_data_of_patched_targets_witness:
  "ev_type (mk_event ''MODIFIED'' ''7'' (Some [(''a'', ''1'')])) = ''MODIFIED'' \<and>
   cm_data (ev_object (mk_event ''MODIFIED'' ''7'' (Some [(''a'', ''1'')]))) = Some [(''a'', ''1'')] \<and>
   [(''a'', ''1'')] \<noteq> ([] :: str_dict) \<and>
   \<lparr>name = ''config-1'', namespace = ''dev''\<rparr> \<in> set TARGET_CONFIGMAPS \<and>
   map_of (failing store_both) (''dev'', ''config-1'') = None \<and>
   map_of (objects store_both) (''dev'', ''config-1'') = Some old_object \<and>
   map_of (objects (store (snd (process_event store_api
       (mk_event ''MODIFIED'' ''7'' (Some [(''a'', ''1'')]))
       (fresh_state store_both))))) (''dev'', ''config-1'') =
     Some \<lparr>data_field = Some [(''a'', ''1'')], other_fields = [(''immutable'', ''false'')]\<rparr> \<and>
   map_of (failing store_first_failing) (''dev'', ''config-1'') \<noteq> None \<and>
   map_of (objects (store (snd (process_event store_api
       (mk_event ''MODIFIED'' ''7'' (Some [(''a'', ''1'')]))
       (fresh_state store_first_failing))))) (''dev'', ''config-1'') =
     Some \<lparr>data_field = Some [(''a'', ''0''), (''b'', ''2'')],
           other_fields = [(''immutable'', ''false'')]\<rparr>"
  using replicate_replaces_data_of_patched_targets
      [of "mk_event ''MODIFIED'' ''7'' (Some [(''a'', ''1'')])" "[(''a'', ''1'')]"
          "\<lparr>name = ''config-1'', namespace = ''dev''\<rparr>"
          "fresh_state store_both" old_object]
    replicate_replaces_data_of_patched_targets
      [of "mk_event ''MODIFIED'' ''7'' (Some [(''a'', ''1'')])" "[(''a'', ''1'')]"
          "\<lparr>name = ''config-1'', namespace = ''dev''\<rparr>"
          "fresh_state store_first_failing" old_object]
  by (simp add: mk_event_def TARGET_CONFIGMAPS_def fresh_state_def store_both_def
      store_first_failing_def old_object_def)

text \<open>
  C1 as stated, "every target's data field equals \<open>S\<close>", fails: \<open>dev/config-1\<close> is a
  target, its patch request is answered with status 500, the handler logs and goes on, and
  the target still holds \<open>{"a": "0", "b": "2"}\<close> after the event.
\<close>

theorem failed_target_keeps_old_data_counterexample:
  "ev_type (mk_event ''MODIFIED'' ''7'' (Some [(''a'', ''1'')])) = ''MODIFIED'' \<and>
   \<lparr>name = ''config-1'', namespace = ''dev''\<rparr> \<in> set TARGET_CONFIGMAPS \<and>
   map_option data_field
     (map_of (objects (store (snd (process_event store_api
                 (mk_event ''MODIFIED'' ''7'' (Some [(''a'', ''1'')]))
                 (fresh_state store_first_failing)))))
        (''dev'', ''config-1'')) = Some (Some [(''a'', ''0''), (''b'', ''2'')]) \<and>
   map_option data_field
     (map_of (objects (store (snd (process_event store_api
                 (mk_event ''MODIFIED'' ''7'' (Some [(''a'', ''1'')]))
                 (fresh_state store_first_failing)))))
        (''dev'', ''config-1'')) \<noteq> Some (Some [(''a'', ''1'')])"
  by (simp add: process_event_def mk_event_def sync_configmap_data_def TARGET_CONFIGMAPS_def
      sync_target_def try_patch_def store_api_def store_patch_def fresh_state_def
      store_first_failing_def old_object_def logging_def Let_def)

subsection \<open>C2: empty or absent snapshot\<close>

text \<open>
  C2. Whenever the sync pass is called with an empty or absent snapshot, it attempts no
  patch on any target, leaves the store as it is, raises nothing and emits exactly one
  log record, a warning.
\<close>

theorem sync_skips_empty_snapshot:
  assumes "source_data = None \<or> source_data = Some []"
  shows "fst (sync_configmap_data source_data api s) = None \<and>
         patch_calls (snd (sync_configmap_data source_data api s)) = patch_calls s \<and>
         store (snd (sync_configmap_data source_data api s)) = store s \<and>
         logs (snd (sync_configmap_data source_data api s)) =
           logs s @ [(WARNING, ''Source ConfigMap data is empty. Skipping synchronization.'')]"
proof -
  from assms have "py_not source_data" by auto
  then show ?thesis by (simp add: sync_configmap_data_skip logging_def)
qed

text \<open>
  The theorem at the empty dict, on a store holding both targets.
\<close>

theorem sync_skips_empty_snapshot_witness:
  "(Some [] = (None :: str_dict option) \<or> Some [] = Some ([] :: str_dict)) \<and>
   fst (sync_configmap_data (Some []) store_api (fresh_state store_both)) = None \<and>
   patch_calls (snd (sync_configmap_data (Some []) store_api (fresh_state store_both))) = [] \<and>
   store (snd (sync_configmap_data (Some []) store_api (fresh_state store_both))) = store_both \<and>
   logs (snd (sync_configmap_data (Some []) store_api (fresh_state store_both))) =
     [(WARNING, ''Source ConfigMap data is empty. Skipping synchronization.'')]"
  using sync_skips_empty_snapshot [of "Some []" store_api "fresh_state store_both"]
  by (simp add: fresh_state_def)

subsection \<open>C3: deletion of the source\<close>

text \<open>
  C3. Processing a \<open>DELETED\<close> event, in any state and with any client, issues no patch
  call and leaves the store untouched; nothing is raised. Over a whole connection,
  whatever comes before and after them, the \<open>DELETED\<close> events contribute nothing: taking
  them out of the event sequence changes neither the patch calls issued nor the store.
\<close>

theorem deleted_event_patches_nothing:
  "(ev_type ev = ''DELETED'' \<longrightarrow>
      fst (process_event api ev s) = None \<and>
      patch_calls (snd (process_event api ev s)) = patch_calls s \<and>
      store (snd (process_event api ev s)) = store s) \<and>
   patch_calls (snd (consume api evs s)) =
     patch_calls (snd (consume api (filter (\<lambda>ev. ev_type ev \<noteq> ''DELETED'') evs) s)) \<and>
   store (snd (consume api evs s)) =
     store (snd (consume api (filter (\<lambda>ev. ev_type ev \<noteq> ''DELETED'') evs) s))"
  using consume_without_deleted [of api evs s]
  by (simp add: process_event_no_raise process_event_deleted)

text \<open>
  The theorem at a \<open>DELETED\<close> event that still carries the last data of the source, and
  at a connection that yields it between an \<open>ADDED\<close> event and an ignored one.
\<close>

theorem deleted_event_patches_nothing_witness:
  "ev_type (mk_event ''DELETED'' ''11'' (Some [(''a'', ''1'')])) = ''DELETED'' \<and>
   fst (process_event store_api (mk_event ''DELETED'' ''11'' (Some [(''a'', ''1'')]))
          (fresh_state store_both)) = None \<and>
   patch_calls (snd (process_event store_api (mk_event ''DELETED'' ''11'' (Some [(''a'', ''1'')]))
          (fresh_state store_both))) = [] \<and>
   store (snd (process_event store_api (mk_event ''DELETED'' ''11'' (Some [(''a'', ''1'')]))
          (fresh_state store_both))) = store_both \<and>
   patch_calls (snd (consume store_api (events mixed_session) (fresh_state store_both))) =
     patch_calls (snd (consume store_api
        [mk_event ''ADDED'' ''10'' (Some [(''a'', ''1'')]), mk_event ''BOOKMARK'' ''12'' None]
        (fresh_state store_both)))"
proof -
  have f: "filter (\<lambda>ev. ev_type ev \<noteq> ''DELETED'') (events mixed_session) =
      [mk_event ''ADDED'' ''10'' (Some [(''a'', ''1'')]), mk_event ''BOOKMARK'' ''12'' None]"
    by (simp add: mixed_session_def mk_event_def)
  have d: "ev_type (mk_event ''DELETED'' ''11'' (Some [(''a'', ''1'')])) = ''DELETED''"
    by (simp add: mk_event_def)
  have s0: "patch_calls (fresh_state store_both) = []" "store (fresh_state store_both) = store_both"
    by (simp_all add: fresh_state_def)
  show ?thesis
    using deleted_event_patches_nothing
      [of "mk_event ''DELETED'' ''11'' (Some [(''a'', ''1'')])" store_api "fresh_state store_both"
          "events mixed_session"]
    unfolding f s0 using d by blast
qed

subsection \<open>C4: failures of single targets\<close>

text \<open>
  C4. Whatever the client answers to any patch request, the loop over an ordered target
  list raises nothing and attempts a patch on every target of the list, in order; so does
  the sync pass over \<open>TARGET_CONFIGMAPS\<close>. In particular, on the store, with a first target
  that does not exist and a second that exists and accepts the request, the pass raises
  nothing and the second target ends with the snapshot as its data.
\<close>

theorem sync_pass_isolates_target_failures:
  "fst (sync_targets d api ts s) = None \<and>
   patch_calls (snd (sync_targets d api ts s)) =
     patch_calls s @ map (\<lambda>t. (name t, namespace t, [(''data'', d)])) ts \<and>
   fst (sync_configmap_data sd api s) = None \<and>
   (sd = Some d \<and> d \<noteq> [] \<longrightarrow>
      patch_calls (snd (sync_configmap_data sd api s)) =
        patch_calls s @ map (\<lambda>t. (name t, namespace t, [(''data'', d)])) TARGET_CONFIGMAPS) \<and>
   (map_of (objects (store s0)) (namespace t1, name t1) = None \<and>
    map_of (failing (store s0)) (namespace t2, name t2) = None \<and>
    map_of (objects (store s0)) (namespace t2, name t2) = Some ob \<longrightarrow>
      fst (sync_targets d store_api [t1, t2] s0) = None \<and>
      map_of (objects (store (snd (sync_targets d store_api [t1, t2] s0))))
        (namespace t2, name t2) = Some (ob\<lparr>data_field := Some d\<rparr>))"
  by (simp add: sync_targets_no_raise sync_targets_calls sync_configmap_data_no_raise
      sync_configmap_data_calls sync_targets_store_objects
      del: sync_targets.simps)

text \<open>
  The theorem on a store where \<open>dev/config-1\<close> is absent and \<open>stage/config-2\<close> present.
\<close>

theorem sync_pass_isolates_target_failures_witness:
  "fst (sync_configmap_data (Some [(''a'', ''1'')]) store_api (fresh_state store_first_absent)) = None \<and>
   patch_calls (snd (sync_configmap_data (Some [(''a'', ''1'')]) store_api
       (fresh_state store_first_absent))) =
     [(''config-1'', ''dev'', [(''data'', [(''a'', ''1'')])]),
      (''config-2'', ''stage'', [(''data'', [(''a'', ''1'')])])] \<and>
   map_of (objects store_first_absent) (''dev'', ''config-1'') = None \<and>
   map_of (failing store_first_absent) (''stage'', ''config-2'') = None \<and>
   map_of (objects store_first_absent) (''stage'', ''config-2'') = Some old_object \<and>
   map_of (objects (store (snd (sync_targets [(''a'', ''1'')] store_api TARGET_CONFIGMAPS
       (fresh_state store_first_absent))))) (''stage'', ''config-2'') =
     Some \<lparr>data_field = Some [(''a'', ''1'')], other_fields = [(''immutable'', ''false'')]\<rparr>"
  using sync_pass_isolates_target_failures
      [of "[(''a'', ''1'')]" store_api "[]" "fresh_state store_first_absent"
          "Some [(''a'', ''1'')]" "fresh_state store_first_absent"
          "\<lparr>name = ''config-1'', namespace = ''dev''\<rparr>"
          "\<lparr>name = ''config-2'', namespace = ''stage''\<rparr>" old_object]
  by (simp add: TARGET_CONFIGMAPS_def fresh_state_def store_first_absent_def old_object_def
      del: sync_targets.simps)

subsection \<open>C5: the backoff sequence\<close>

text \<open>
  C5. Nine connections in a row that each end with an \<open>ApiException\<close> (status 410) and
  yield no event are followed by sleeps of 1, 2, 4, 8, 16, 32, 60, 60, 60: each turn
  sleeps the current delay, then doubles it, capped at 60. Nine connections that each end
  with a connection error are not: at the first of them the clause of line 123 raises
  \<open>AttributeError\<close>, the loop is left before \<open>time.sleep\<close>, and no delay is slept at all.
  (\<open>backoff_delays_of_a_run\<close> gives the delays of any run without \<open>ADDED\<close> or
  \<open>MODIFIED\<close> events: the sequence, as long as the endings are handled.)
\<close>

theorem backoff_sequence_cut_by_connection_error:
  "sleeps (snd (watch_source_configmap (good_env (replicate 9 gone_session))
                  (fresh_state store_both))) = [1, 2, 4, 8, 16, 32, 60, 60, 60] \<and>
   fst (watch_source_configmap (good_env (replicate 9 broken_session))
          (fresh_state store_both)) = Raised no_attribute \<and>
   sleeps (snd (watch_source_configmap (good_env (replicate 9 broken_session))
                  (fresh_state store_both))) = []"
proof -
  have up: "[0..<9] = [0, 1, 2, 3, 4, 5, 6, 7, 8]" by (simp add: upt_rec)
  have nine: "replicate 9 x = [x, x, x, x, x, x, x, x, x]" for x :: session
    by (simp add: numeral_eq_Suc)
  have a: "sleeps (snd (watch_source_configmap (good_env (replicate 9 gone_session))
                  (fresh_state store_both))) = [1, 2, 4, 8, 16, 32, 60, 60, 60]"
    using backoff_delays_of_a_run
      [of "good_env (replicate 9 gone_session)" store_api "fresh_state store_both"]
    by (simp add: nine good_env_def gone_session_def fresh_state_def up)
  have b: "sleeps (snd (watch_source_configmap (good_env (replicate 9 broken_session))
                  (fresh_state store_both))) = []"
    using backoff_delays_of_a_run
      [of "good_env (replicate 9 broken_session)" store_api "fresh_state store_both"]
    by (simp add: nine good_env_def broken_session_def fresh_state_def)
  have c: "fst (watch_source_configmap (good_env (replicate 9 broken_session))
          (fresh_state store_both)) = Raised no_attribute"
    using loop_ends_at_unhandled_ending
      [of "good_env (replicate 9 broken_session)" store_api "fresh_state store_both"]
    by (simp add: nine good_env_def broken_session_def)
  from a b c show ?thesis by simp
qed

subsection \<open>C6: resetting the backoff\<close>

text \<open>
  C6, as the code has it. Processing an event raises nothing; after an \<open>ADDED\<close> or
  \<open>MODIFIED\<close> event the backoff delay is 1, however large it had grown, and after an event
  of any other kind (\<open>DELETED\<close> or ignored) it is what it was before the event.
\<close>

theorem backoff_reset_on_sync_events:
  "fst (process_event api ev s) = None \<and>
   backoff_time (snd (process_event api ev s)) =
     (if ev_type ev = ''ADDED'' \<or> ev_type ev = ''MODIFIED'' then 1 else backoff_time s)"
  by (simp add: process_event_no_raise process_event_backoff sync_event_def)

text \<open>
  The theorem at delay 32: a \<open>MODIFIED\<close> event resets it, a \<open>DELETED\<close> event does not.
\<close>

theorem backoff_reset_on_sync_events_witness:
  "backoff_time (snd (process_event store_api (mk_event ''MODIFIED'' ''42'' (Some [(''a'', ''1'')]))
      ((fresh_state store_both)\<lparr>backoff_time := 32\<rparr>))) = 1 \<and>
   backoff_time (snd (process_event store_api (mk_event ''DELETED'' ''43'' (Some [(''a'', ''1'')]))
      ((fresh_state store_both)\<lparr>backoff_time := 32\<rparr>))) = 32"
  using backoff_reset_on_sync_events
      [of store_api "mk_event ''MODIFIED'' ''42'' (Some [(''a'', ''1'')])"
          "(fresh_state store_both)\<lparr>backoff_time := 32\<rparr>"]
    backoff_reset_on_sync_events
      [of store_api "mk_event ''DELETED'' ''43'' (Some [(''a'', ''1'')])"
          "(fresh_state store_both)\<lparr>backoff_time := 32\<rparr>"]
  by (simp add: mk_event_def fresh_state_def)

text \<open>
  C6 as stated, "after any processed notification of any kind the delay equals 1", fails:
  two connections that end with an \<open>ApiException\<close> (status 410) bring the delay to 4,
  and a \<open>DELETED\<close> event processed then without error leaves it at 4.
\<close>

theorem deleted_event_keeps_backoff_counterexample:
  "backoff_time (snd (watch_loop store_api [gone_session, gone_session]
                        (fresh_state store_both))) = 4 \<and>
   fst (process_event store_api (mk_event ''DELETED'' ''41'' (Some [(''a'', ''1'')]))
          (snd (watch_loop store_api [gone_session, gone_session]
                  (fresh_state store_both)))) = None \<and>
   backoff_time
     (snd (process_event store_api (mk_event ''DELETED'' ''41'' (Some [(''a'', ''1'')]))
             (snd (watch_loop store_api [gone_session, gone_session]
                     (fresh_state store_both))))) \<noteq> 1"
  by (simp add: watch_iteration_def watch_guarded_def watch_try_def process_event_def
      mk_event_def gone_session_def fresh_state_def logging_def Let_def)

subsection \<open>C7: the watch cursor\<close>

text \<open>
  C7. Processing an event of any kind, in any state, sets the cursor to the resource
  version the event carries. After a successful bootstrap the cursors presented to the
  stream openings of the run (one for each connection made) are those of
  \<open>cursors_presented\<close>: unset for the first, and for each later opening the cursor of the
  last event of the connection before it (the cursor presented to that connection when
  it yielded no event).
\<close>

theorem cursor_follows_every_event:
  assumes "load_incluster_config en = None" and "CoreV1Api en = Inr api" and "Watch en = None"
  shows "resource_version (snd (process_event api ev s')) =
           md_resource_version (cm_metadata (ev_object ev)) \<and>
         map req_resource_version (stream_opens (snd (watch_source_configmap en s))) =
           map req_resource_version (stream_opens s) @
             cursors_presented None (connections_made (sessions en))"
proof -
  from assms have b: "fst (bootstrap en s) = Inr api"
    by (simp add: bootstrap_ok)
  show ?thesis
    by (simp add: process_event_cursor watch_source_configmap_entered [OF b] watch_loop_cursors
        bootstrap_frame)
qed

text \<open>
  The theorem at a connection yielding \<open>ADDED\<close>, \<open>DELETED\<close> and an ignored kind with
  resource versions 10, 11, 12, a connection that ends with status 410 at once, one that
  yields a \<open>MODIFIED\<close> event with resource version 9 before status 410, and one that
  ends with a connection error, after which no stream is opened.
\<close>

theorem cursor_follows_every_event_witness:
  "load_incluster_config
     (good_env [mixed_session, gone_session, failing_session, broken_session, mixed_session]) = None \<and>
   CoreV1Api
     (good_env [mixed_session, gone_session, failing_session, broken_session, mixed_session]) =
     Inr store_api \<and>
   Watch
     (good_env [mixed_session, gone_session, failing_session, broken_session, mixed_session]) = None \<and>
   resource_version (snd (process_event store_api (mk_event ''BOOKMARK'' ''12'' None)
       (fresh_state store_both))) = Some ''12'' \<and>
   map req_resource_version
     (stream_opens (snd (watch_source_configmap
        (good_env [mixed_session, gone_session, failing_session, broken_session, mixed_session])
        (fresh_state store_both)))) =
     [None, Some ''12'', Some ''12'', Some ''9'']"
  using cursor_follows_every_event
    [of "good_env [mixed_session, gone_session, failing_session, broken_session, mixed_session]"
        store_api "mk_event ''BOOKMARK'' ''12'' None" "fresh_state store_both"
        "fresh_state store_both"]
  by (simp add: good_env_def mixed_session_def gone_session_def failing_session_def
      broken_session_def mk_event_def fresh_state_def cursor_after_def)

subsection \<open>C8: classification of events\<close>

text \<open>
  C8. For an \<open>ADDED\<close> or \<open>MODIFIED\<close> event, in any state, the loop runs the sync pass on
  the data the event carries and nothing else decides it: with a non-empty snapshot every
  target gets a patch request carrying that snapshot, whatever was synced before. For an
  event of any kind other than \<open>ADDED\<close>, \<open>MODIFIED\<close> and \<open>DELETED\<close> the only effects are
  the cursor update and one logging call at level \<open>DEBUG\<close>.
\<close>

theorem classification_of_events:
  "(ev_type ev = ''ADDED'' \<or> ev_type ev = ''MODIFIED'' \<longrightarrow>
      process_event api ev s =
        (None, (snd (sync_configmap_data (cm_data (ev_object ev)) api
                  (s\<lparr>resource_version := md_resource_version (cm_metadata (ev_object ev))\<rparr>)))
               \<lparr>backoff_time := 1\<rparr>)) \<and>
   ((ev_type ev = ''ADDED'' \<or> ev_type ev = ''MODIFIED'') \<and>
    cm_data (ev_object ev) = Some d \<and> d \<noteq> [] \<longrightarrow>
      patch_calls (snd (process_event api ev s)) =
        patch_calls s @ map (\<lambda>t. (name t, namespace t, [(''data'', d)])) TARGET_CONFIGMAPS) \<and>
   (ev_type ev \<noteq> ''ADDED'' \<and> ev_type ev \<noteq> ''MODIFIED'' \<and> ev_type ev \<noteq> ''DELETED'' \<longrightarrow>
      process_event api ev s =
        (None, s\<lparr>logs := logs s @ [(DEBUG, ''Ignored event type: '' @ ev_type ev)],
                 resource_version := md_resource_version (cm_metadata (ev_object ev))\<rparr>))"
  by (simp add: process_event_eq sync_event_def sync_configmap_data_calls
      sync_configmap_data_frame logging_def)

text \<open>
  The theorem at one \<open>MODIFIED\<close> event processed twice in a row (the second time with
  unchanged content: the targets are patched again) and at an ignored kind.
\<close>

theorem classification_of_events_witness:
  "ev_type (mk_event ''MODIFIED'' ''7'' (Some [(''a'', ''1'')])) = ''MODIFIED'' \<and>
   cm_data (ev_object (mk_event ''MODIFIED'' ''7'' (Some [(''a'', ''1'')]))) = Some [(''a'', ''1'')] \<and>
   patch_calls (snd (process_event store_api (mk_event ''MODIFIED'' ''7'' (Some [(''a'', ''1'')]))
     (snd (process_event store_api (mk_event ''MODIFIED'' ''7'' (Some [(''a'', ''1'')]))
        (fresh_state store_both))))) =
     [(''config-1'', ''dev'', [(''data'', [(''a'', ''1'')])]),
      (''config-2'', ''stage'', [(''data'', [(''a'', ''1'')])]),
      (''config-1'', ''dev'', [(''data'', [(''a'', ''1'')])]),
      (''config-2'', ''stage'', [(''data'', [(''a'', ''1'')])])] \<and>
   ev_type (mk_event ''BOOKMARK'' ''8'' None) \<noteq> ''ADDED'' \<and>
   ev_type (mk_event ''BOOKMARK'' ''8'' None) \<noteq> ''MODIFIED'' \<and>
   ev_type (mk_event ''BOOKMARK'' ''8'' None) \<noteq> ''DELETED'' \<and>
   process_event store_api (mk_event ''BOOKMARK'' ''8'' None) (fresh_state store_both) =
     (None, (fresh_state store_both)
              \<lparr>logs := [(DEBUG, ''Ignored event type: BOOKMARK'')],
               resource_version := Some ''8''\<rparr>)"
proof -
  let ?ev = "mk_event ''MODIFIED'' ''7'' (Some [(''a'', ''1'')])"
  let ?bm = "mk_event ''BOOKMARK'' ''8'' None"
  let ?s0 = "fresh_state store_both"
  let ?s1 = "snd (process_event store_api ?ev ?s0)"
  have ty: "ev_type ?ev = ''MODIFIED''" "cm_data (ev_object ?ev) = Some [(''a'', ''1'')]"
    by (simp_all add: mk_event_def)
  have ne: "[(''a'', ''1'')] \<noteq> ([] :: str_dict)" by simp
  have bm: "ev_type ?bm \<noteq> ''ADDED''" "ev_type ?bm \<noteq> ''MODIFIED''" "ev_type ?bm \<noteq> ''DELETED''"
    by (simp_all add: mk_event_def)
  have c0: "patch_calls ?s1 =
      patch_calls ?s0 @ map (\<lambda>t. (name t, namespace t, [(''data'', [(''a'', ''1'')])])) TARGET_CONFIGMAPS"
    using classification_of_events [of ?ev store_api ?s0 "[(''a'', ''1'')]"] ty ne by blast
  have c1: "patch_calls (snd (process_event store_api ?ev ?s1)) =
      patch_calls ?s1 @ map (\<lambda>t. (name t, namespace t, [(''data'', [(''a'', ''1'')])])) TARGET_CONFIGMAPS"
    using classification_of_events [of ?ev store_api ?s1 "[(''a'', ''1'')]"] ty ne by blast
  have c2: "process_event store_api ?bm ?s0 =
      (None, ?s0\<lparr>logs := logs ?s0 @ [(DEBUG, ''Ignored event type: '' @ ev_type ?bm)],
                 resource_version := md_resource_version (cm_metadata (ev_object ?bm))\<rparr>)"
    using classification_of_events [of ?bm store_api ?s0 "[]"] bm by blast
  have c3: "patch_calls (snd (process_event store_api ?ev ?s1)) =
     [(''config-1'', ''dev'', [(''data'', [(''a'', ''1'')])]),
      (''config-2'', ''stage'', [(''data'', [(''a'', ''1'')])]),
      (''config-1'', ''dev'', [(''data'', [(''a'', ''1'')])]),
      (''config-2'', ''stage'', [(''data'', [(''a'', ''1'')])])]"
    unfolding c1 c0 by (simp add: TARGET_CONFIGMAPS_def fresh_state_def)
  have c4: "process_event store_api ?bm ?s0 =
     (None, ?s0\<lparr>logs := [(DEBUG, ''Ignored event type: BOOKMARK'')],
               resource_version := Some ''8''\<rparr>)"
    unfolding c2 by (simp add: mk_event_def fresh_state_def)
  from ty bm c3 c4 show ?thesis by blast
qed

subsection \<open>C9: bootstrap failure and containment of errors\<close>

text \<open>
  C9. When \<open>watch.Watch()\<close> raises at startup, \<open>watch_source_configmap\<close> returns without
  opening a stream or patching a target (\<open>bootstrap_failure_returns\<close> has this for each
  of the three calls of the bootstrap block). Once the loop is entered, a steady-state
  error does end it: when the first connection ends with a connection error, the clause
  of line 123 raises \<open>AttributeError\<close>, which leaves the loop and the function after one
  stream opening, with no sleep and no reconnect; the connection that would have followed
  is never made. (\<open>loop_contains_handled_endings\<close>: the loop keeps running as long as
  every connection ends normally or with an \<open>ApiException\<close>.)
\<close>

theorem connection_error_ends_the_loop:
  "fst (watch_source_configmap (no_watch_env [mixed_session]) (fresh_state store_both)) =
     Returned \<and>
   stream_opens (snd (watch_source_configmap (no_watch_env [mixed_session])
     (fresh_state store_both))) = [] \<and>
   patch_calls (snd (watch_source_configmap (no_watch_env [mixed_session])
     (fresh_state store_both))) = [] \<and>
   fst (watch_source_configmap (good_env [broken_session, mixed_session])
          (fresh_state store_both)) = Raised no_attribute \<and>
   length (stream_opens (snd (watch_source_configmap (good_env [broken_session, mixed_session])
     (fresh_state store_both)))) = 1 \<and>
   sleeps (snd (watch_source_configmap (good_env [broken_session, mixed_session])
     (fresh_state store_both))) = [] \<and>
   patch_calls (snd (watch_source_configmap (good_env [broken_session, mixed_session])
     (fresh_state store_both))) = []"
  by (simp add: watch_source_configmap_def bootstrap_def no_watch_env_def good_env_def
      watch_iteration_def watch_guarded_def watch_try_def broken_session_def
      exceptions_has_MaxRetryError_def fresh_state_def logging_def Let_def)

subsection \<open>C10: a skipped pass still resets the backoff\<close>

text \<open>
  C10. An \<open>ADDED\<close> or \<open>MODIFIED\<close> event whose snapshot is empty or absent issues no
  patch call, raises nothing, and leaves the backoff delay at 1, as an event whose pass
  patched targets does.
\<close>

theorem skipped_pass_still_resets_backoff:
  assumes "ev_type ev = ''ADDED'' \<or> ev_type ev = ''MODIFIED''"
    and "cm_data (ev_object ev) = None \<or> cm_data (ev_object ev) = Some []"
  shows "fst (process_event api ev s) = None \<and>
         patch_calls (snd (process_event api ev s)) = patch_calls s \<and>
         backoff_time (snd (process_event api ev s)) = 1"
proof -
  from assms(2) have "py_not (cm_data (ev_object ev))" by auto
  with assms(1) show ?thesis
    by (simp add: process_event_eq sync_event_def sync_configmap_data_skip logging_def)
qed

text \<open>
  The theorem at an \<open>ADDED\<close> event without data, with the delay grown to 60.
\<close>

theorem skipped_pass_still_resets_backoff_witness:
  "(ev_type (mk_event ''ADDED'' ''44'' None) = ''ADDED'' \<or>
    ev_type (mk_event ''ADDED'' ''44'' None) = ''MODIFIED'') \<and>
   (cm_data (ev_object (mk_event ''ADDED'' ''44'' None)) = None \<or>
    cm_data (ev_object (mk_event ''ADDED'' ''44'' None)) = Some []) \<and>
   fst (process_event store_api (mk_event ''ADDED'' ''44'' None)
          ((fresh_state store_both)\<lparr>backoff_time := 60\<rparr>)) = None \<and>
   patch_calls (snd (process_event store_api (mk_event ''ADDED'' ''44'' None)
          ((fresh_state store_both)\<lparr>backoff_time := 60\<rparr>))) = [] \<and>
   backoff_time (snd (process_event store_api (mk_event ''ADDED'' ''44'' None)
          ((fresh_state store_both)\<lparr>backoff_time := 60\<rparr>))) = 1"
  using skipped_pass_still_resets_backoff
      [of "mk_event ''ADDED'' ''44'' None" store_api
          "(fresh_state store_both)\<lparr>backoff_time := 60\<rparr>"]
  by (simp add: mk_event_def fresh_state_def)

end
